theory Spec2Isabelle
  imports Complex_Main "HOL-Library.AList" "HOL-Library.Char_ord" "HOL-Library.List_Lexorder"
begin

section \<open>Python values and errors\<close>

text \<open>
  Every exception the modelled functions can raise is a constructor of \<open>error\<close>;
  a function that may raise returns \<open>error + 'a\<close>, with \<open>Inl\<close> for the exception.
  Python floats and NumPy float64 values are modelled as exact reals.
\<close>

datatype error =
    AssertionError
  | UnrecognizedMethod
  | IndexError
  | ZeroDivisionError
  | TypeError
  | ValueError
  | AttributeError
  | UnboundLocalError
  | KeyError

text \<open>Indexing \<^verbatim>\<open>xs[i]\<close>: a negative index counts from the end, out of range raises.\<close>

definition getitem :: "'a list \<Rightarrow> int \<Rightarrow> error + 'a" where
  "getitem xs i =
     (if 0 \<le> i \<and> i < int (length xs) then Inr (xs ! nat i)
      else if i < 0 \<and> - int (length xs) \<le> i then Inr (xs ! nat (int (length xs) + i))
      else Inl IndexError)"

text \<open>\<^verbatim>\<open>int(r)\<close> on a float truncates towards zero.\<close>

definition py_int :: "real \<Rightarrow> int" where
  "py_int r = (if 0 \<le> r then \<lfloor>r\<rfloor> else \<lceil>r\<rceil>)"

text \<open>A slice \<^verbatim>\<open>xs[a:b]\<close>: both bounds are clipped to the list, never an error.\<close>

definition slice_index :: "nat \<Rightarrow> int \<Rightarrow> nat" where
  "slice_index n k = (if k < 0 then nat (max 0 (int n + k)) else min n (nat k))"

definition slice :: "'a list \<Rightarrow> int \<Rightarrow> int \<Rightarrow> 'a list" where
  "slice xs a b =
     (let lo = slice_index (length xs) a; hi = slice_index (length xs) b
      in take (hi - lo) (drop lo xs))"

text \<open>
  \<^verbatim>\<open>np.arange(start, stop, step)\<close> on floats, for a step that is not zero:
  \<open>\<lceil>(stop - start) / step\<rceil>\<close> values \<open>start + k * step\<close>, none when that number is
  not positive. What a zero step raises depends on the type of the step, so each
  caller tests for it.
\<close>

definition arange :: "real \<Rightarrow> real \<Rightarrow> real \<Rightarrow> real list" where
  "arange start stop step =
     map (\<lambda>k. start + real k * step) [0..<nat \<lceil>(stop - start) / step\<rceil>]"

section \<open>utils.py: rebin_data\<close>

text \<open>
  \<^verbatim>\<open>x\<close> and \<^verbatim>\<open>dx_new\<close> are Python numbers, as in the calls of the specification: a
  division by zero raises ZeroDivisionError, also inside \<^verbatim>\<open>np.arange\<close> for the step
  \<^verbatim>\<open>step_size\<close>. \<^verbatim>\<open>np.float\<close> is the builtin \<^verbatim>\<open>float\<close>, as in the NumPy versions that have
  that name.
\<close>

text \<open>The body of the loop of \<^verbatim>\<open>rebin_data\<close>: the value of the bin starting at index \<open>i\<close>.\<close>

definition rebin_total :: "real list \<Rightarrow> nat \<Rightarrow> real \<Rightarrow> real \<Rightarrow> error + real" where
  "rebin_total y len_x step_size i =
     (case getitem y (py_int i) of
        Inl e \<Rightarrow> Inl e
      | Inr y_prev \<Rightarrow>
          (let tot = (real_of_int (py_int i) + 1 - i) * y_prev in
           (case (if i + step_size < real len_x
                  then (case getitem y (py_int (i + step_size)) of
                          Inl e \<Rightarrow> Inl e
                        | Inr y_next \<Rightarrow>
                            Inr (tot
                                 + (i + step_size - real_of_int (py_int (i + step_size))) * y_next))
                  else Inr tot) of
              Inl e \<Rightarrow> Inl e
            | Inr tot2 \<Rightarrow>
                Inr (tot2 + sum_list (slice y (py_int (i + 1)) (py_int (i + step_size)))))))"

fun rebin_loop :: "real list \<Rightarrow> nat \<Rightarrow> real \<Rightarrow> real list \<Rightarrow> error + real list" where
  "rebin_loop y len_x step_size [] = Inr []"
| "rebin_loop y len_x step_size (i # rest) =
     (case rebin_total y len_x step_size i of
        Inl e \<Rightarrow> Inl e
      | Inr tot \<Rightarrow>
          (case rebin_loop y len_x step_size rest of
             Inl e \<Rightarrow> Inl e
           | Inr output \<Rightarrow> Inr (tot # output)))"

definition rebin_data ::
  "real list \<Rightarrow> real list \<Rightarrow> real \<Rightarrow> string \<Rightarrow> error + (real list \<times> real list \<times> real)" where
  "rebin_data x y dx_new method =
     (case getitem x 1 of
        Inl e \<Rightarrow> Inl e
      | Inr x1 \<Rightarrow>
     (case getitem x 0 of
        Inl e \<Rightarrow> Inl e
      | Inr x0 \<Rightarrow>
     (let dx_old = x1 - x0 in
      if \<not> dx_new \<ge> dx_old then Inl AssertionError
      else if dx_old = 0 then Inl ZeroDivisionError
      else
     (let step_size = dx_new / dx_old in
      if step_size = 0 then Inl ZeroDivisionError
      else
     (case rebin_loop y (length x) step_size (arange 0 (real (length y)) step_size) of
        Inl e \<Rightarrow> Inl e
      | Inr output \<Rightarrow>
     (case (if method \<in> set [''mean'', ''avg'', ''average'', ''arithmetic mean'']
            then Inr (map (\<lambda>v. v / step_size) output)
            else if method = ''sum'' then Inr output
            else Inl UnrecognizedMethod) of
        Inl e \<Rightarrow> Inl e
      | Inr ybin \<Rightarrow>
     (case getitem x (- 1) of
        Inl e \<Rightarrow> Inl e
      | Inr x_last \<Rightarrow>
     (let tseg = x_last - x0 + dx_old in
      if dx_new = 0 then Inl ZeroDivisionError
      else
     (let ybin' = (if frac (tseg / dx_new) > 0 then butlast ybin else ybin);
          xbin = map (\<lambda>k. real k * dx_new + x0 - dx_old + dx_new) [0..<length ybin']
      in Inr (xbin, ybin', step_size))))))))))"

text \<open>
  The specification's reading of a bin, compared with \<open>rebin_total\<close> below: sample \<open>j\<close>
  occupies the cell \<open>[j, j + 1)\<close> of the old grid, and the bin \<open>[lo, hi)\<close> (in
  units of old samples) receives of each sample the fraction of its cell that the bin
  covers.
\<close>

definition spec_bin_sum :: "real list \<Rightarrow> real \<Rightarrow> real \<Rightarrow> real" where
  "spec_bin_sum y lo hi =
     (\<Sum>j<length y. y ! j * max 0 (min (real j + 1) hi - max (real j) lo))"

section \<open>utils.py: time_intervals_from_gtis\<close>

text \<open>
  A GTI is a pair \<open>(g[0], g[1])\<close>. The loop appends to \<^verbatim>\<open>spectrum_start_times\<close> the
  start times of each GTI that passes the length test. The step of \<^verbatim>\<open>np.arange\<close> is
  \<^verbatim>\<open>np.longdouble(chunk_length)\<close>: for a zero step the number of values is not finite
  and NumPy raises ValueError.
\<close>

fun start_times_loop :: "real list \<Rightarrow> (real \<times> real) list \<Rightarrow> real \<Rightarrow> error + real list" where
  "start_times_loop spectrum_start_times [] chunk_length = Inr spectrum_start_times"
| "start_times_loop spectrum_start_times (g # gtis) chunk_length =
     (if snd g - fst g < chunk_length
      then start_times_loop spectrum_start_times gtis chunk_length
      else if chunk_length = 0 then Inl ValueError
      else (let newtimes = arange (fst g) (snd g - chunk_length) chunk_length
            in start_times_loop (spectrum_start_times @ newtimes) gtis chunk_length))"

definition time_intervals_from_gtis ::
  "(real \<times> real) list \<Rightarrow> real \<Rightarrow> error + (real list \<times> real list)" where
  "time_intervals_from_gtis gtis chunk_length =
     (case start_times_loop [] gtis chunk_length of
        Inl e \<Rightarrow> Inl e
      | Inr spectrum_start_times \<Rightarrow>
          if \<not> length spectrum_start_times > 0 then Inl AssertionError
          else Inr (spectrum_start_times,
                    map (\<lambda>t. t + chunk_length) spectrum_start_times))"

section \<open>base.py: interpret_times\<close>

text \<open>
  A time value is a scalar or an array of floats. The astropy inputs are modelled by
  what the function reads of them: a \<^verbatim>\<open>TimeDelta\<close> or \<^verbatim>\<open>Quantity\<close> by its value in
  seconds, a \<^verbatim>\<open>Time\<close> by its Modified Julian Dates.
\<close>

datatype num_value = ScalarV real | ArrayV "real list"

datatype time_input =
    TimeDelta num_value
  | Time num_value
  | Quantity num_value
  | PlainSeq "real list"
  | PlainScalar real
  | OtherInput

fun np_all_gt :: "num_value \<Rightarrow> real \<Rightarrow> bool" where
  "np_all_gt (ScalarV m) c = (m > c)"
| "np_all_gt (ArrayV ms) c = (\<forall>m\<in>set ms. m > c)"

fun mjds_to_seconds :: "num_value \<Rightarrow> real \<Rightarrow> num_value" where
  "mjds_to_seconds (ScalarV m) mjdref = ScalarV ((m - mjdref) * 86400)"
| "mjds_to_seconds (ArrayV ms) mjdref = ArrayV (map (\<lambda>m. (m - mjdref) * 86400) ms)"

fun interpret_times :: "time_input \<Rightarrow> real \<Rightarrow> error + (num_value \<times> real)" where
  "interpret_times (TimeDelta out_times) mjdref = Inr (out_times, mjdref)"
| "interpret_times (Time mjds) mjdref =
     (case (if mjdref = 0 \<and> np_all_gt mjds 10000
            then (case mjds of
                    ArrayV ms \<Rightarrow> getitem ms 0
                  | ScalarV m \<Rightarrow> Inr m)
            else Inr mjdref) of
        Inl e \<Rightarrow> Inl e
      | Inr mjdref' \<Rightarrow> Inr (mjds_to_seconds mjds mjdref', mjdref'))"
| "interpret_times (Quantity out_times) mjdref = Inr (out_times, mjdref)"
| "interpret_times (PlainSeq time) mjdref = Inr (ArrayV time, mjdref)"
| "interpret_times (PlainScalar time) mjdref = Inr (ScalarV time, mjdref)"
| "interpret_times OtherInput mjdref = Inl ValueError"

section \<open>base.py: the objects\<close>

text \<open>
  The values an attribute holds: \<^verbatim>\<open>None\<close>, a number, a string, a plain Python list of
  numbers, a one-dimensional NumPy array, and a NumPy array of shape \<open>(k, 2)\<close> (a GTI
  list). Copies (\<^verbatim>\<open>copy.deepcopy\<close>, \<^verbatim>\<open>np.asarray\<close> of an array) are the value itself.
\<close>

datatype pyval =
    PyNone
  | PyNum real
  | PyStr string
  | PyList "real list"
  | NdArray "real list"
  | NdArray2 "(real \<times> real) list"

text \<open>
  An object is its instance dictionary, in insertion order. The class contributes one
  data attribute, \<^verbatim>\<open>main_array_attr = "time"\<close>. Methods and the interpreter's double
  underscore attributes are left out: they are callable or private, so \<^verbatim>\<open>meta_attrs\<close>
  never lists them, and none of them is an iterable with the shape of a
  one-dimensional array, so \<^verbatim>\<open>array_attrs\<close> never lists them for such a main array.
\<close>

type_synonym stingray_obj = "(string \<times> pyval) list"

definition getattr :: "stingray_obj \<Rightarrow> string \<Rightarrow> error + pyval" where
  "getattr self name =
     (case map_of self name of
        Some v \<Rightarrow> Inr v
      | None \<Rightarrow> if name = ''main_array_attr'' then Inr (PyStr ''time'') else Inl AttributeError)"

definition setattr :: "stingray_obj \<Rightarrow> string \<Rightarrow> pyval \<Rightarrow> stingray_obj" where
  "setattr self name v = AList.update name v self"

definition hasattr :: "stingray_obj \<Rightarrow> string \<Rightarrow> bool" where
  "hasattr self name = (case getattr self name of Inl e \<Rightarrow> False | Inr v \<Rightarrow> True)"

text \<open>\<^verbatim>\<open>dir(self)\<close>, restricted to the data attributes: sorted, without repetition.\<close>

definition dir_attrs :: "stingray_obj \<Rightarrow> string list" where
  "dir_attrs self = sort (remdups (''main_array_attr'' # map fst self))"

fun is_iterable :: "pyval \<Rightarrow> bool" where
  "is_iterable PyNone = False"
| "is_iterable (PyNum r) = False"
| "is_iterable (PyStr s) = True"
| "is_iterable (PyList xs) = True"
| "is_iterable (NdArray xs) = True"
| "is_iterable (NdArray2 rows) = True"

fun np_shape :: "pyval \<Rightarrow> nat list" where
  "np_shape PyNone = []"
| "np_shape (PyNum r) = []"
| "np_shape (PyStr s) = []"
| "np_shape (PyList xs) = [length xs]"
| "np_shape (NdArray xs) = [length xs]"
| "np_shape (NdArray2 rows) = [length rows, 2]"

definition is_array_attr :: "stingray_obj \<Rightarrow> pyval \<Rightarrow> string \<Rightarrow> bool" where
  "is_array_attr self main_attr attr =
     (case getattr self attr of
        Inl e \<Rightarrow> False
      | Inr v \<Rightarrow> is_iterable v \<and> np_shape v = np_shape main_attr)"

definition array_attrs :: "stingray_obj \<Rightarrow> error + string list" where
  "array_attrs self =
     (case getattr self ''main_array_attr'' of
        Inl e \<Rightarrow> Inl e
      | Inr (PyStr main_name) \<Rightarrow>
          (case getattr self main_name of
             Inl e \<Rightarrow> Inl e
           | Inr PyNone \<Rightarrow> Inr []
           | Inr main_attr \<Rightarrow> Inr (filter (is_array_attr self main_attr) (dir_attrs self)))
      | Inr other \<Rightarrow> Inl TypeError)"

definition startswith :: "string \<Rightarrow> string \<Rightarrow> bool" where
  "startswith s pre = (take (length pre) s = pre)"

definition endswith :: "string \<Rightarrow> string \<Rightarrow> bool" where
  "endswith s suf = (length suf \<le> length s \<and> drop (length s - length suf) s = suf)"

definition meta_attrs :: "stingray_obj \<Rightarrow> error + string list" where
  "meta_attrs self =
     (case array_attrs self of
        Inl e \<Rightarrow> Inl e
      | Inr arrs \<Rightarrow>
          Inr (filter (\<lambda>attr. attr \<notin> set arrs \<and> \<not> startswith attr ''_'') (dir_attrs self)))"

section \<open>base.py: StingrayTimeseries\<close>

text \<open>
  The constructor, for a \<^verbatim>\<open>time\<close> that is \<^verbatim>\<open>None\<close> or a plain sequence of floats
  (\<^verbatim>\<open>interpret_times\<close> returns such a sequence as an array; its scalar results do not
  occur here). The keyword \<^verbatim>\<open>dt\<close> is popped from \<^verbatim>\<open>other_kw\<close>; the remaining keywords
  are stored as given, the entries of \<^verbatim>\<open>array_attrs\<close> as arrays after the length
  check. \<^verbatim>\<open>high_precision\<close> only changes the float type and has no parameter here.
\<close>

fun set_other_kw :: "(string \<times> pyval) list \<Rightarrow> stingray_obj \<Rightarrow> stingray_obj" where
  "set_other_kw [] self = self"
| "set_other_kw ((kw, v) # other_kw) self = set_other_kw other_kw (setattr self kw v)"

fun np_size :: "pyval \<Rightarrow> error + nat" where
  "np_size (NdArray xs) = Inr (length xs)"
| "np_size (NdArray2 rows) = Inr (2 * length rows)"
| "np_size v = Inl AttributeError"

fun set_array_attrs :: "(string \<times> real list) list \<Rightarrow> stingray_obj \<Rightarrow> error + stingray_obj" where
  "set_array_attrs [] self = Inr self"
| "set_array_attrs ((kw, new_arr) # rest) self =
     (case getattr self ''time'' of
        Inl e \<Rightarrow> Inl e
      | Inr t \<Rightarrow>
          (case np_size t of
             Inl e \<Rightarrow> Inl e
           | Inr n \<Rightarrow>
               if n \<noteq> length new_arr then Inl ValueError
               else set_array_attrs rest (setattr self kw (NdArray new_arr))))"

definition StingrayTimeseries ::
  "real list option \<Rightarrow> (string \<times> real list) list \<Rightarrow> real \<Rightarrow> string
     \<Rightarrow> (real \<times> real) list option \<Rightarrow> pyval \<Rightarrow> pyval \<Rightarrow> pyval
     \<Rightarrow> (string \<times> pyval) list \<Rightarrow> error + stingray_obj" where
  "StingrayTimeseries time array_attrs_arg mjdref notes gti ephem timeref timesys other_kw =
     (let self0 =
            [(''notes'', PyStr notes),
             (''mjdref'', PyNum mjdref),
             (''gti'', (case gti of None \<Rightarrow> PyNone | Some g \<Rightarrow> NdArray2 g)),
             (''ephem'', ephem),
             (''timeref'', timeref),
             (''timesys'', timesys),
             (''_mask'', PyNone),
             (''dt'', (case map_of other_kw ''dt'' of None \<Rightarrow> PyNum 0 | Some v \<Rightarrow> v))];
          other_kw' = AList.delete ''dt'' other_kw
      in (case (case time of
                  None \<Rightarrow> Inr (setattr self0 ''time'' PyNone)
                | Some t \<Rightarrow>
                    (case interpret_times (PlainSeq t) mjdref of
                       Inl e \<Rightarrow> Inl e
                     | Inr (ScalarV r, mjdref') \<Rightarrow>
                         Inr (setattr (setattr self0 ''time'' (PyNum r)) ''ncounts'' (PyNum 1))
                     | Inr (ArrayV ts, mjdref') \<Rightarrow>
                         Inr (setattr (setattr self0 ''time'' (NdArray ts))
                                ''ncounts'' (PyNum (real (length ts)))))) of
            Inl e \<Rightarrow> Inl e
          | Inr self1 \<Rightarrow> set_array_attrs array_attrs_arg (set_other_kw other_kw' self1)))"

text \<open>\<^verbatim>\<open>type(self)()\<close>: the constructor with every argument at its default.\<close>

definition new_timeseries :: "stingray_obj" where
  "new_timeseries =
     [(''notes'', PyStr []),
      (''mjdref'', PyNum 0),
      (''gti'', PyNone),
      (''ephem'', PyNone),
      (''timeref'', PyNone),
      (''timesys'', PyNone),
      (''_mask'', PyNone),
      (''dt'', PyNum 0),
      (''time'', PyNone)]"

text \<open>
  \<^verbatim>\<open>value[mask]\<close> for a boolean array (\<open>msk\<close> stands for the source's \<^verbatim>\<open>mask\<close>):
  NumPy arrays select the entries (rows) where the mask is true and refuse a mask of
  another length; a Python list, a
  number, a string and \<^verbatim>\<open>None\<close> cannot be indexed by an array.
\<close>

definition select_mask :: "'a list \<Rightarrow> bool list \<Rightarrow> 'a list" where
  "select_mask xs msk = map fst (filter snd (zip xs msk))"

fun getitem_mask :: "pyval \<Rightarrow> bool list \<Rightarrow> error + pyval" where
  "getitem_mask (NdArray xs) msk =
     (if length msk = length xs then Inr (NdArray (select_mask xs msk)) else Inl IndexError)"
| "getitem_mask (NdArray2 rows) msk =
     (if length msk = length rows then Inr (NdArray2 (select_mask rows msk))
      else Inl IndexError)"
| "getitem_mask v msk = Inl TypeError"

text \<open>
  The last loop of \<^verbatim>\<open>apply_mask\<close>. With \<^verbatim>\<open>inplace\<close> the attribute is read from the
  object being rewritten (\<^verbatim>\<open>new_ts is self\<close>), otherwise from the untouched \<open>self\<close>.
\<close>

fun mask_attrs_loop ::
  "bool \<Rightarrow> stingray_obj \<Rightarrow> bool list \<Rightarrow> string list \<Rightarrow> stingray_obj \<Rightarrow> error + stingray_obj" where
  "mask_attrs_loop inplace self msk [] new_ts = Inr new_ts"
| "mask_attrs_loop inplace self msk (attr # filtered_attrs) new_ts =
     (case getattr (if inplace then new_ts else self) attr of
        Inl e \<Rightarrow> Inl e
      | Inr v \<Rightarrow>
          (case getitem_mask v msk of
             Inl e \<Rightarrow> Inl e
           | Inr masked \<Rightarrow>
               mask_attrs_loop inplace self msk filtered_attrs (setattr new_ts attr masked)))"

fun eliminate_unfiltered :: "string list \<Rightarrow> string list \<Rightarrow> stingray_obj \<Rightarrow> stingray_obj" where
  "eliminate_unfiltered [] filtered_attrs new_ts = new_ts"
| "eliminate_unfiltered (attr # all_attrs) filtered_attrs new_ts =
     eliminate_unfiltered all_attrs filtered_attrs
       (if attr \<notin> set filtered_attrs then setattr new_ts attr PyNone else new_ts)"

fun copy_meta_attrs :: "stingray_obj \<Rightarrow> string list \<Rightarrow> stingray_obj \<Rightarrow> stingray_obj" where
  "copy_meta_attrs self [] new_ts = new_ts"
| "copy_meta_attrs self (attr # attrs) new_ts =
     copy_meta_attrs self attrs
       (case getattr self attr of
          Inl e \<Rightarrow> new_ts
        | Inr v \<Rightarrow> setattr new_ts attr v)"

text \<open>
  \<^verbatim>\<open>apply_mask\<close> returns the object it built; with \<^verbatim>\<open>inplace\<close> that object is \<open>self\<close>
  after the update.
\<close>

definition apply_mask ::
  "stingray_obj \<Rightarrow> bool list \<Rightarrow> bool \<Rightarrow> string list option \<Rightarrow> error + stingray_obj" where
  "apply_mask self msk inplace filtered_attrs_arg =
     (case array_attrs self of
        Inl e \<Rightarrow> Inl e
      | Inr all_attrs \<Rightarrow>
          (let filtered_attrs0 = (case filtered_attrs_arg of None \<Rightarrow> all_attrs | Some f \<Rightarrow> f);
               filtered_attrs = (if ''time'' \<notin> set filtered_attrs0
                                 then filtered_attrs0 @ [''time''] else filtered_attrs0)
           in (case (if inplace
                     then Inr (eliminate_unfiltered all_attrs filtered_attrs self)
                     else (case meta_attrs self of
                             Inl e \<Rightarrow> Inl e
                           | Inr metas \<Rightarrow> Inr (copy_meta_attrs self metas new_timeseries))) of
                 Inl e \<Rightarrow> Inl e
               | Inr new_ts \<Rightarrow> mask_attrs_loop inplace self msk filtered_attrs new_ts)))"

text \<open>\<^verbatim>\<open>np.asarray(value) + time_shift\<close> for a float \<open>time_shift\<close>.\<close>

fun np_add_float :: "pyval \<Rightarrow> real \<Rightarrow> error + pyval" where
  "np_add_float PyNone c = Inl TypeError"
| "np_add_float (PyStr s) c = Inl TypeError"
| "np_add_float (PyNum r) c = Inr (PyNum (r + c))"
| "np_add_float (PyList xs) c = Inr (NdArray (map (\<lambda>x. x + c) xs))"
| "np_add_float (NdArray xs) c = Inr (NdArray (map (\<lambda>x. x + c) xs))"
| "np_add_float (NdArray2 rows) c = Inr (NdArray2 (map (\<lambda>g. (fst g + c, snd g + c)) rows))"

definition shift :: "stingray_obj \<Rightarrow> real \<Rightarrow> error + stingray_obj" where
  "shift self time_shift =
     (let ts = self in
      (case getattr ts ''time'' of
         Inl e \<Rightarrow> Inl e
       | Inr t \<Rightarrow>
           (case np_add_float t time_shift of
              Inl e \<Rightarrow> Inl e
            | Inr t' \<Rightarrow>
                (let ts1 = setattr ts ''time'' t' in
                 if hasattr ts1 ''gti''
                 then (case getattr ts1 ''gti'' of
                         Inl e \<Rightarrow> Inl e
                       | Inr g \<Rightarrow>
                           (case np_add_float g time_shift of
                              Inl e \<Rightarrow> Inl e
                            | Inr g' \<Rightarrow> Inr (setattr ts1 ''gti'' g')))
                 else Inr ts1))))"

text \<open>
  \<^verbatim>\<open>change_mjdref\<close> for a float \<^verbatim>\<open>mjdref\<close>, as the signature documents it; \<^verbatim>\<open>None\<close>, a
  string or a list cannot be subtracted from and raise TypeError, and an array valued
  \<^verbatim>\<open>mjdref\<close> is not modelled apart from them.
\<close>

definition change_mjdref :: "stingray_obj \<Rightarrow> real \<Rightarrow> error + stingray_obj" where
  "change_mjdref self new_mjdref =
     (case getattr self ''mjdref'' of
        Inl e \<Rightarrow> Inl e
      | Inr (PyNum mjdref) \<Rightarrow>
          (case shift self ((mjdref - new_mjdref) * 86400) of
             Inl e \<Rightarrow> Inl e
           | Inr ts \<Rightarrow> Inr (setattr ts ''mjdref'' (PyNum new_mjdref)))
      | Inr other \<Rightarrow> Inl TypeError)"

section \<open>base.py: split_by_gti\<close>






section \<open>base.py: the complex columns of read and write\<close>

text \<open>
  A table is its columns in order, each a real or a complex array. \<^verbatim>\<open>ts[name] = c\<close>
  replaces the column of that name where it stands or appends a new one;
  \<^verbatim>\<open>ts.colnames\<close> is the list of names. The two loops below are the ones \<^verbatim>\<open>write\<close> and
  \<^verbatim>\<open>read\<close> run when \<^verbatim>\<open>fmt is None or "ascii" in fmt\<close>; the file between them is left
  to the table library.
\<close>

datatype column = RealCol "real list" | ComplexCol "complex list"

type_synonym table = "(string \<times> column) list"

definition colnames :: "table \<Rightarrow> string list" where
  "colnames ts = map fst ts"

definition get_column :: "table \<Rightarrow> string \<Rightarrow> error + column" where
  "get_column ts name = (case map_of ts name of None \<Rightarrow> Inl KeyError | Some c \<Rightarrow> Inr c)"

definition set_column :: "table \<Rightarrow> string \<Rightarrow> column \<Rightarrow> table" where
  "set_column ts name c = AList.update name c ts"

definition remove_column :: "table \<Rightarrow> string \<Rightarrow> table" where
  "remove_column ts name = AList.delete name ts"

text \<open>\<^verbatim>\<open>np.iscomplex(c[0])\<close>: whether the first entry has a non-zero imaginary part.\<close>

fun first_iscomplex :: "column \<Rightarrow> error + bool" where
  "first_iscomplex (RealCol xs) =
     (case getitem xs 0 of Inl e \<Rightarrow> Inl e | Inr x \<Rightarrow> Inr False)"
| "first_iscomplex (ComplexCol zs) =
     (case getitem zs 0 of Inl e \<Rightarrow> Inl e | Inr z \<Rightarrow> Inr (Im z \<noteq> 0))"

fun col_real :: "column \<Rightarrow> column" where
  "col_real (RealCol xs) = RealCol xs"
| "col_real (ComplexCol zs) = RealCol (map Re zs)"

fun col_imag :: "column \<Rightarrow> column" where
  "col_imag (RealCol xs) = RealCol (map (\<lambda>x. 0) xs)"
| "col_imag (ComplexCol zs) = RealCol (map Im zs)"

fun write_loop :: "string list \<Rightarrow> table \<Rightarrow> error + table" where
  "write_loop [] ts = Inr ts"
| "write_loop (col # cols) ts =
     (case get_column ts col of
        Inl e \<Rightarrow> Inl e
      | Inr c \<Rightarrow>
          (case first_iscomplex c of
             Inl e \<Rightarrow> Inl e
           | Inr False \<Rightarrow> write_loop cols ts
           | Inr True \<Rightarrow>
               (let ts1 = set_column ts (col @ ''.real'') (col_real c) in
                (case get_column ts1 col of
                   Inl e \<Rightarrow> Inl e
                 | Inr c1 \<Rightarrow>
                     (let ts2 = set_column ts1 (col @ ''.imag'') (col_imag c1)
                      in write_loop cols (remove_column ts2 col))))))"

definition write_columns :: "table \<Rightarrow> error + table" where
  "write_columns ts = write_loop (colnames ts) ts"

text \<open>
  \<^verbatim>\<open>s.replace(old, "")\<close> for a non-empty \<open>old\<close>: every occurrence, found from the
  left, is removed.
\<close>

function str_remove :: "string \<Rightarrow> string \<Rightarrow> string" where
  "str_remove old [] = []"
| "str_remove old (c # cs) =
     (if old \<noteq> [] \<and> take (length old) (c # cs) = old
      then str_remove old (drop (length old) (c # cs))
      else c # str_remove old cs)"
  by pat_completeness auto
termination
  by (relation "measure (\<lambda>(old, s). length s)") (auto simp: neq_Nil_conv)

text \<open>\<^verbatim>\<open>c * 1j\<close>, \<^verbatim>\<open>c + 0.0j\<close> and the in-place \<^verbatim>\<open>c += d\<close> on columns.\<close>

fun times_1j :: "column \<Rightarrow> column" where
  "times_1j (RealCol xs) = ComplexCol (map (\<lambda>x. Complex 0 x) xs)"
| "times_1j (ComplexCol zs) = ComplexCol (map (\<lambda>z. z * \<i>) zs)"

fun plus_0j :: "column \<Rightarrow> column" where
  "plus_0j (RealCol xs) = ComplexCol (map (\<lambda>x. Complex x 0) xs)"
| "plus_0j (ComplexCol zs) = ComplexCol zs"

fun col_values :: "column \<Rightarrow> complex list" where
  "col_values (RealCol xs) = map (\<lambda>x. Complex x 0) xs"
| "col_values (ComplexCol zs) = zs"

fun col_iadd :: "column \<Rightarrow> column \<Rightarrow> error + column" where
  "col_iadd (ComplexCol zs) d =
     (if length (col_values d) = length zs
      then Inr (ComplexCol (map (\<lambda>(z, w). z + w) (zip zs (col_values d))))
      else Inl ValueError)"
| "col_iadd (RealCol xs) (RealCol ys) =
     (if length ys = length xs
      then Inr (RealCol (map (\<lambda>(x, y). x + y) (zip xs ys)))
      else Inl ValueError)"
| "col_iadd (RealCol xs) (ComplexCol ws) = Inl TypeError"

text \<open>
  The loop of \<^verbatim>\<open>read\<close>. The walrus assignment \<^verbatim>\<open>is_imag := col.endswith(".imag")\<close> is
  the right operand of \<^verbatim>\<open>or\<close>: it runs only when \<^verbatim>\<open>is_real\<close> is false, and otherwise
  \<^verbatim>\<open>is_imag\<close> keeps the value of an earlier column, or is unbound (\<open>None\<close>) when no
  earlier column assigned it.
\<close>

fun read_loop :: "string list \<Rightarrow> bool option \<Rightarrow> table \<Rightarrow> error + table" where
  "read_loop [] is_imag ts = Inr ts"
| "read_loop (col # cols) is_imag ts =
     (let is_real = endswith col ''.real'';
          is_imag' = (if is_real then is_imag else Some (endswith col ''.imag''))
      in if \<not> (is_real \<or> is_imag' = Some True) then read_loop cols is_imag' ts
         else
     (case get_column ts col of
        Inl e \<Rightarrow> Inl e
      | Inr new_value0 \<Rightarrow>
     (case is_imag' of
        None \<Rightarrow> Inl UnboundLocalError
      | Some im \<Rightarrow>
     (let new_value = plus_0j (if im then times_1j new_value0 else new_value0);
          col_strip = str_remove ''.imag'' (str_remove ''.real'' col)
      in
     (case (if col_strip \<notin> set (colnames ts)
            then Inr (set_column ts col_strip new_value)
            else (case get_column ts col_strip of
                    Inl e \<Rightarrow> Inl e
                  | Inr old_value \<Rightarrow>
                      (case col_iadd old_value new_value of
                         Inl e \<Rightarrow> Inl e
                       | Inr summed \<Rightarrow> Inr (set_column ts col_strip summed)))) of
        Inl e \<Rightarrow> Inl e
      | Inr ts1 \<Rightarrow> read_loop cols is_imag' (remove_column ts1 col))))))"

definition read_columns :: "table \<Rightarrow> error + table" where
  "read_columns ts = read_loop (colnames ts) None ts"

section \<open>Auxiliary definitions for the statements\<close>

text \<open>
  What one GTI contributes to the start times of \<^verbatim>\<open>time_intervals_from_gtis\<close> for a
  positive \<^verbatim>\<open>chunk_length\<close>: the body of one round of its loop.
\<close>

definition gti_start_times :: "real \<times> real \<Rightarrow> real \<Rightarrow> real list" where
  "gti_start_times g c =
     (if snd g - fst g < c then []
      else map (\<lambda>k. fst g + real k * c) [0..<nat \<lceil>(snd g - c - fst g) / c\<rceil>])"

text \<open>
  The object \<^verbatim>\<open>StingrayTimeseries(time=[0, 1, 2])\<close>: no GTI list is given, so \<^verbatim>\<open>gti\<close>
  holds \<^verbatim>\<open>None\<close>.
\<close>

definition ts_no_gti :: stingray_obj where
  "ts_no_gti =
     [(''notes'', PyStr []), (''mjdref'', PyNum 0), (''gti'', PyNone),
      (''ephem'', PyNone), (''timeref'', PyNone), (''timesys'', PyNone),
      (''_mask'', PyNone), (''dt'', PyNum 0), (''time'', NdArray [0, 1, 2]),
      (''ncounts'', PyNum 3)]"

text \<open>
  No attribute of the object is a plain Python list of \<open>n\<close> numbers: every value with
  the shape of a time array of length \<open>n\<close> is then a NumPy array, as the constructor
  stores the entries of \<^verbatim>\<open>array_attrs\<close>.
\<close>

definition no_list_attr :: "stingray_obj \<Rightarrow> nat \<Rightarrow> bool" where
  "no_list_attr self n =
     list_all (\<lambda>p. case snd p of PyList xs \<Rightarrow> length xs \<noteq> n | other \<Rightarrow> True) self"

text \<open>
  The object of the docstring of \<^verbatim>\<open>apply_mask\<close>:
  \<^verbatim>\<open>ts = StingrayTimeseries(time=[0, 1, 2], array_attrs={"counts": [2, 3, 4]}, mission="nustar")\<close>
  followed by \<^verbatim>\<open>ts.bubuattr = [222, 111, 333]\<close>, a plain list.
\<close>

definition ts_bubu :: stingray_obj where
  "ts_bubu =
     [(''notes'', PyStr []), (''mjdref'', PyNum 0), (''gti'', PyNone),
      (''ephem'', PyNone), (''timeref'', PyNone), (''timesys'', PyNone),
      (''_mask'', PyNone), (''dt'', PyNum 0), (''time'', NdArray [0, 1, 2]),
      (''ncounts'', PyNum 3), (''mission'', PyStr ''nustar''),
      (''counts'', NdArray [2, 3, 4]), (''bubuattr'', PyList [222, 111, 333])]"


text \<open>
  The table of an object with two complex array attributes, \<^verbatim>\<open>a = [1+2j, 3+4j]\<close> and
  \<^verbatim>\<open>b = [5+6j, 7+8j]\<close>, beside \<^verbatim>\<open>time = [0, 1]\<close>; the columns stand in the order of
  \<^verbatim>\<open>array_attrs()\<close>.
\<close>

definition table_two_complex :: table where
  "table_two_complex =
     [(''a'', ComplexCol [Complex 1 2, Complex 3 4]),
      (''b'', ComplexCol [Complex 5 6, Complex 7 8]),
      (''time'', RealCol [0, 1])]"

section \<open>Properties of rebin_data\<close>

lemma getitem_nat: "k < length xs \<Longrightarrow> getitem xs (int k) = Inr (xs ! k)"
  by (simp add: getitem_def)

lemma sum_list_take_drop:
  "sum_list (take k (drop a y)) = (\<Sum>j\<in>{a..<min (a + k) (length y)}. (y ! j :: real))"
proof -
  have "sum_list (take k (drop a y)) = (\<Sum>i = 0..<length (take k (drop a y)). take k (drop a y) ! i)"
    by (rule sum_list_sum_nth)
  also have "\<dots> = (\<Sum>i = 0..<min k (length y - a). y ! (i + a))"
    by (rule sum.cong) (auto simp: min.commute add.commute)
  also have "\<dots> = (\<Sum>j\<in>{0 + a..<min k (length y - a) + a}. y ! j)"
    by (rule sum.shift_bounds_nat_ivl[symmetric])
  also have "{0 + a..<min k (length y - a) + a} = {a..<min (a + k) (length y)}"
    by auto
  finally show ?thesis .
qed

lemma sum_list_slice:
  "sum_list (slice y (int a) (int b)) = (\<Sum>j\<in>{a..<min b (length y)}. (y ! j :: real))"
proof -
  have "slice y (int a) (int b) = take (min (length y) b - min (length y) a) (drop (min (length y) a) y)"
    by (simp add: slice_def slice_index_def Let_def)
  then have "sum_list (slice y (int a) (int b)) =
      (\<Sum>j\<in>{min (length y) a..<min (min (length y) a + (min (length y) b - min (length y) a)) (length y)}. y ! j)"
    by (simp only: sum_list_take_drop)
  also have "\<dots> = (\<Sum>j\<in>{a..<min b (length y)}. y ! j)"
    by (rule sum.cong) (auto simp: min_def)
  finally show ?thesis .
qed

lemma rebin_total_spec:
  assumes s: "1 \<le> s" and i0: "0 \<le> i" and i_lt: "i < real (length y)"
  shows "rebin_total y (length y) s i = Inr (spec_bin_sum y i (i + s))"
proof -
  define n where "n = length y"
  define a where "a = nat \<lfloor>i\<rfloor>"
  define b where "b = nat \<lfloor>i + s\<rfloor>"
  have ra: "real a = of_int \<lfloor>i\<rfloor>" using i0 by (simp add: a_def)
  have rb: "real b = of_int \<lfloor>i + s\<rfloor>" using i0 s by (simp add: b_def)
  have fa: "real a \<le> i" "i < real a + 1"
    unfolding ra by linarith+
  have fb: "real b \<le> i + s" "i + s < real b + 1"
    unfolding rb by linarith+
  have an: "a < n" using fa i_lt by (simp add: n_def)
  have ab: "a + 1 \<le> b"
  proof -
    have "real a + 1 < real b + 1" using fa fb s by linarith
    then show ?thesis by simp
  qed
  have rab: "real a + 1 \<le> real b" using ab by (simp add: nat_less_real_le[symmetric])
  have pa: "py_int i = int a" using i0 by (simp add: py_int_def a_def)
  have pb: "py_int (i + s) = int b" using i0 s by (simp add: py_int_def b_def)
  have pa1: "py_int (i + 1) = int (a + 1)" using i0 by (simp add: py_int_def a_def)
  have bn: "i + s < real n \<longleftrightarrow> b < n"
  proof
    assume "i + s < real n"
    with fb have "real b < real n" by linarith
    then show "b < n" by simp
  next
    assume "b < n"
    then have "real b + 1 \<le> real n" by (simp add: nat_less_real_le[symmetric])
    with fb show "i + s < real n" by linarith
  qed
  define c1 where "c1 j = (if j = a then real a + 1 - i else 0)" for j
  define c2 where "c2 j = (if j = b then i + s - real b else 0)" for j
  define c3 where "c3 j = (if a + 1 \<le> j \<and> j < b then (1::real) else 0)" for j
  have w: "max 0 (min (real j + 1) (i + s) - max (real j) i) = c1 j + c2 j + c3 j" for j
  proof -
    consider "j < a" | "j = a" | "a < j" "j < b" | "j = b" | "b < j" by linarith
    then show ?thesis
    proof cases
      case 1
      then have "real j + 1 \<le> real a" by (simp add: nat_less_real_le[symmetric])
      with 1 fa fb ab s show ?thesis by (simp add: c1_def c2_def c3_def)
    next
      case 2
      with fa fb ab s show ?thesis by (simp add: c1_def c2_def c3_def)
    next
      case 3
      then have "real a + 1 \<le> real j" "real j + 1 \<le> real b"
        by (simp_all add: nat_less_real_le[symmetric])
      with 3 fa fb ab s show ?thesis by (simp add: c1_def c2_def c3_def)
    next
      case 4
      with fa fb ab rab s show ?thesis by (simp add: c1_def c2_def c3_def)
    next
      case 5
      then have "real b + 1 \<le> real j" by (simp add: nat_less_real_le[symmetric])
      with 5 fa fb ab rab s show ?thesis by (simp add: c1_def c2_def c3_def)
    qed
  qed
  have code: "rebin_total y n s i =
      Inr ((real a + 1 - i) * y ! a + (if b < n then (i + s - real b) * y ! b else 0)
           + (\<Sum>j\<in>{a + 1..<min b n}. y ! j))"
  proof -
    have g1: "getitem y (py_int i) = Inr (y ! a)"
      using an by (simp only: pa getitem_nat n_def)
    have g2: "getitem y (py_int (i + s)) = Inr (y ! b)" if "b < length y"
      using that by (simp only: pb getitem_nat)
    have sl: "sum_list (slice y (py_int (i + 1)) (py_int (i + s)))
        = (\<Sum>j\<in>{a + 1..<min b (length y)}. y ! j)"
      by (simp only: pa1 pb sum_list_slice)
    have rpa: "real_of_int (py_int i) = real a" by (simp add: pa)
    have rpb: "real_of_int (py_int (i + s)) = real b" by (simp add: pb)
    show ?thesis
    proof (cases "b < length y")
      case True
      with bn have "i + s < real (length y)" by (simp add: n_def)
      with True show ?thesis
        unfolding rebin_total_def n_def by (simp add: g1 g2 sl rpa rpb Let_def)
    next
      case False
      with bn have "\<not> i + s < real (length y)" by (simp add: n_def)
      with False show ?thesis
        unfolding rebin_total_def n_def by (simp add: g1 sl rpa rpb Let_def)
    qed
  qed
  have s1: "(\<Sum>j<n. y ! j * c1 j) = (real a + 1 - i) * y ! a"
    using an by (simp add: c1_def sum.delta if_distrib[of "\<lambda>v. _ * v"] cong: if_cong)
  have s2: "(\<Sum>j<n. y ! j * c2 j) = (if b < n then (i + s - real b) * y ! b else 0)"
    by (simp add: c2_def sum.delta if_distrib[of "\<lambda>v. _ * v"] cong: if_cong)
  have s3: "(\<Sum>j<n. y ! j * c3 j) = (\<Sum>j\<in>{a + 1..<min b n}. y ! j)"
  proof -
    have "(\<Sum>j<n. y ! j * c3 j) = (\<Sum>j<n. if a + 1 \<le> j \<and> j < b then y ! j else 0)"
      by (rule sum.cong) (simp_all add: c3_def)
    also have "\<dots> = (\<Sum>j\<in>{..<n} \<inter> {j. a + 1 \<le> j \<and> j < b}. y ! j)"
      by (simp add: sum.If_cases)
    also have "{..<n} \<inter> {j. a + 1 \<le> j \<and> j < b} = {a + 1..<min b n}" by auto
    finally show ?thesis .
  qed
  have "spec_bin_sum y i (i + s) = (\<Sum>j<n. y ! j * (c1 j + c2 j + c3 j))"
    by (simp add: spec_bin_sum_def w n_def)
  also have "\<dots> = (\<Sum>j<n. y ! j * c1 j) + (\<Sum>j<n. y ! j * c2 j) + (\<Sum>j<n. y ! j * c3 j)"
    by (simp add: distrib_left sum.distrib)
  finally have "spec_bin_sum y i (i + s) =
      (real a + 1 - i) * y ! a + (if b < n then (i + s - real b) * y ! b else 0)
      + (\<Sum>j\<in>{a + 1..<min b n}. y ! j)"
    by (simp only: s1 s2 s3)
  with code show ?thesis by (simp only: n_def)
qed


lemma rebin_loop_map:
  "(\<And>i. i \<in> set starts \<Longrightarrow> rebin_total y m s i = Inr (f i)) \<Longrightarrow>
   rebin_loop y m s starts = Inr (map f starts)"
  by (induction starts) simp_all

lemma arange_index_bound:
  assumes s: "0 < s" and k: "k < nat \<lceil>n / s\<rceil>"
  shows "real k * s < n"
proof -
  have "int k < \<lceil>n / s\<rceil>" using k by simp
  then have "real k < n / s" by (simp add: less_ceiling_iff)
  with s show ?thesis by (simp add: pos_less_divide_eq)
qed

lemma rebin_loop_spec:
  assumes s: "1 \<le> s"
  shows "rebin_loop y (length y) s (map (\<lambda>k. real k * s) [0..<nat \<lceil>real (length y) / s\<rceil>])
       = Inr (map (\<lambda>k. spec_bin_sum y (real k * s) (real k * s + s))
                [0..<nat \<lceil>real (length y) / s\<rceil>])"
proof -
  have "rebin_loop y (length y) s (map (\<lambda>k. real k * s) [0..<nat \<lceil>real (length y) / s\<rceil>])
      = Inr (map (\<lambda>i. spec_bin_sum y i (i + s))
               (map (\<lambda>k. real k * s) [0..<nat \<lceil>real (length y) / s\<rceil>]))"
  proof (rule rebin_loop_map)
    fix i
    assume "i \<in> set (map (\<lambda>k. real k * s) [0..<nat \<lceil>real (length y) / s\<rceil>])"
    then obtain k where k: "k < nat \<lceil>real (length y) / s\<rceil>" and i: "i = real k * s"
      by auto
    have "0 \<le> i" using s i by simp
    moreover have "i < real (length y)"
      using arange_index_bound[OF _ k] s i by simp
    ultimately show "rebin_total y (length y) s i = Inr (spec_bin_sum y i (i + s))"
      using s by (rule rebin_total_spec[rotated])
  qed
  then show ?thesis by (simp add: comp_def)
qed

lemma arange_0: "arange 0 n s = map (\<lambda>k. real k * s) [0..<nat \<lceil>n / s\<rceil>]"
  by (simp add: arange_def)

lemma getitem_0: "xs \<noteq> [] \<Longrightarrow> getitem xs 0 = Inr (xs ! 0)"
  by (simp add: getitem_def)

lemma getitem_1: "2 \<le> length xs \<Longrightarrow> getitem xs 1 = Inr (xs ! 1)"
  by (simp add: getitem_def)

lemma getitem_last: "xs \<noteq> [] \<Longrightarrow> getitem xs (- 1) = Inr (last xs)"
proof -
  assume ne: "xs \<noteq> []"
  then have len: "1 \<le> length xs" by (cases xs) simp_all
  then have "nat (int (length xs) + - 1) = length xs - 1" by simp
  with ne len show ?thesis by (simp add: getitem_def last_conv_nth)
qed

lemma rebin_data_unfold:
  assumes len: "length x = length y" and two: "2 \<le> length x"
    and pos: "0 < x ! 1 - x ! 0" and le: "x ! 1 - x ! 0 \<le> dx_new"
  shows "rebin_data x y dx_new method =
    (case (if method \<in> set [''mean'', ''avg'', ''average'', ''arithmetic mean'']
           then Inr (map (\<lambda>v. v / (dx_new / (x ! 1 - x ! 0)))
                      (map (\<lambda>k. spec_bin_sum y (real k * (dx_new / (x ! 1 - x ! 0)))
                                   (real k * (dx_new / (x ! 1 - x ! 0)) + dx_new / (x ! 1 - x ! 0)))
                        [0..<nat \<lceil>real (length y) / (dx_new / (x ! 1 - x ! 0))\<rceil>]))
           else if method = ''sum''
           then Inr (map (\<lambda>k. spec_bin_sum y (real k * (dx_new / (x ! 1 - x ! 0)))
                                   (real k * (dx_new / (x ! 1 - x ! 0)) + dx_new / (x ! 1 - x ! 0)))
                       [0..<nat \<lceil>real (length y) / (dx_new / (x ! 1 - x ! 0))\<rceil>])
           else Inl UnrecognizedMethod) of
       Inl e \<Rightarrow> Inl e
     | Inr ybin \<Rightarrow>
         Inr (map (\<lambda>k. real k * dx_new + x ! 0 - (x ! 1 - x ! 0) + dx_new)
                [0..<length (if frac ((last x - x ! 0 + (x ! 1 - x ! 0)) / dx_new) > 0
                             then butlast ybin else ybin)],
              if frac ((last x - x ! 0 + (x ! 1 - x ! 0)) / dx_new) > 0
              then butlast ybin else ybin,
              dx_new / (x ! 1 - x ! 0)))"
proof -
  have ne: "x \<noteq> []" using two by auto
  have s1: "1 \<le> dx_new / (x ! 1 - x ! 0)" using pos le by simp
  have dn: "dx_new \<noteq> 0" "dx_new / (x ! 1 - x ! 0) \<noteq> 0" "x ! 1 - x ! 0 \<noteq> 0"
    using pos le by auto
  show ?thesis
    unfolding rebin_data_def
    by (simp only: getitem_0[OF ne] getitem_1[OF two] getitem_last[OF ne] Let_def len
        arange_0 rebin_loop_spec[OF s1] sum.case le dn not_True_eq_False if_False)
qed


text \<open>
  On a uniform grid \<open>x[j] = x[0] + j * dx\<close> the total span is \<open>n * dx\<close>, and what
  \<^verbatim>\<open>rebin_data\<close> keeps are exactly the \<open>\<lfloor>n * dx / dx_new\<rfloor>\<close> bins that lie inside the
  data: the bin dropped at the end is the one that reaches past the last sample.
\<close>

lemma butlast_map_upt: "butlast (map f [0..<m]) = map f [0..<m - 1]"
  by (cases m) (simp_all add: map_butlast[symmetric])

lemma rebin_data_sum_uniform:
  assumes len: "length x = length y" and two: "2 \<le> length x"
    and dx: "0 < dx" and le: "dx \<le> dx_new"
    and uni: "\<forall>j<length x. x ! j = x ! 0 + real j * dx"
  shows "rebin_data x y dx_new ''sum'' =
    Inr (map (\<lambda>k. real k * dx_new + x ! 0 - dx + dx_new)
           [0..<nat \<lfloor>real (length y) / (dx_new / dx)\<rfloor>],
         map (\<lambda>k. spec_bin_sum y (real k * (dx_new / dx)) (real k * (dx_new / dx) + dx_new / dx))
           [0..<nat \<lfloor>real (length y) / (dx_new / dx)\<rfloor>],
         dx_new / dx)"
proof -
  define n where "n = length y"
  define r where "r = real n / (dx_new / dx)"
  have x1: "x ! 1 - x ! 0 = dx" using uni two by simp
  have ne: "x \<noteq> []" using two by auto
  have "last x = x ! (length x - 1)" using ne by (simp add: last_conv_nth)
  also have "\<dots> = x ! 0 + real (length x - 1) * dx" using uni two by simp
  finally have lx: "last x = x ! 0 + (real n - 1) * dx"
    using two len by (simp add: n_def of_nat_diff)
  have t1: "last x - x ! 0 + (x ! 1 - x ! 0) = real n * dx"
    unfolding x1 lx by (simp add: algebra_simps)
  have tseg: "(last x - x ! 0 + (x ! 1 - x ! 0)) / dx_new = r"
    unfolding t1 r_def using dx le by simp
  have r0: "0 \<le> r" using dx le by (simp add: r_def)
  have pre: "0 < x ! 1 - x ! 0" "x ! 1 - x ! 0 \<le> dx_new" unfolding x1 using dx le by simp_all
  have cases: "(if r \<in> \<int> then [0..<nat \<lceil>r\<rceil>] else [0..<nat \<lceil>r\<rceil> - 1]) = [0..<nat \<lfloor>r\<rfloor>]"
  proof (cases "r \<in> \<int>")
    case True
    then show ?thesis by (auto elim!: Ints_cases)
  next
    case False
    then have "r \<noteq> of_int \<lfloor>r\<rfloor>" by (metis Ints_of_int)
    then have "\<lceil>r\<rceil> = \<lfloor>r\<rfloor> + 1" by (simp add: ceiling_altdef)
    moreover have "0 \<le> \<lfloor>r\<rfloor>" using r0 by simp
    ultimately show ?thesis using False by (simp add: nat_add_distrib)
  qed
  have tseg': "(last x - x ! 0 + dx) / dx_new = real (length y) / (dx_new / dx)"
    using tseg by (simp only: x1 r_def n_def)
  have cases': "(if real (length y) / (dx_new / dx) \<in> \<int>
                then [0..<nat \<lceil>real (length y) / (dx_new / dx)\<rceil>]
                else [0..<nat \<lceil>real (length y) / (dx_new / dx)\<rceil> - 1])
              = [0..<nat \<lfloor>real (length y) / (dx_new / dx)\<rfloor>]"
    using cases by (simp only: r_def n_def)
  have "rebin_data x y dx_new ''sum'' =
    (let step_size = dx_new / dx;
         bins = map (\<lambda>k. spec_bin_sum y (real k * step_size) (real k * step_size + step_size))
                  [0..<nat \<lceil>real (length y) / step_size\<rceil>];
         ybin = (if (last x - x ! 0 + dx) / dx_new \<in> \<int> then bins else butlast bins)
     in Inr (map (\<lambda>k. real k * dx_new + x ! 0 - dx + dx_new) [0..<length ybin],
             ybin, step_size))"
  proof -
    have ns: "(''sum'' \<in> set [''mean'', ''avg'', ''average'', ''arithmetic mean'']) = False"
      by simp
    have "rebin_data x y dx_new ''sum'' =
      (let step_size = dx_new / (x ! 1 - x ! 0);
           bins = map (\<lambda>k. spec_bin_sum y (real k * step_size) (real k * step_size + step_size))
                    [0..<nat \<lceil>real (length y) / step_size\<rceil>];
           ybin = (if (last x - x ! 0 + (x ! 1 - x ! 0)) / dx_new \<in> \<int> then bins else butlast bins)
       in Inr (map (\<lambda>k. real k * dx_new + x ! 0 - (x ! 1 - x ! 0) + dx_new) [0..<length ybin],
               ybin, step_size))"
      unfolding rebin_data_unfold[OF len two pre] ns by (simp add: frac_gt_0_iff Let_def)
    then show ?thesis by (simp only: x1)
  qed
  also have "\<dots> = Inr (map (\<lambda>k. real k * dx_new + x ! 0 - dx + dx_new)
           [0..<nat \<lfloor>real (length y) / (dx_new / dx)\<rfloor>],
         map (\<lambda>k. spec_bin_sum y (real k * (dx_new / dx)) (real k * (dx_new / dx) + dx_new / dx))
           [0..<nat \<lfloor>real (length y) / (dx_new / dx)\<rfloor>],
         dx_new / dx)"
    using cases' unfolding tseg' Let_def
    by (cases "real (length y) / (dx_new / dx) \<in> \<int>") (simp_all add: butlast_map_upt)
  finally show ?thesis .
qed



text \<open>
  Claim C10. \<^verbatim>\<open>rebin_data\<close> returns a triple; whenever it returns, the third component
  is \<^verbatim>\<open>dx_new / (x[1] - x[0])\<close>, and it does return, with that third component, for
  every accepted method on inputs of equal length with at least two samples and
  \<^verbatim>\<open>0 < x[1] - x[0] <= dx_new\<close>.
\<close>

theorem rebin_data_step_size:
  "(rebin_data x y dx_new method = Inr (xbin, ybin, step_size)
      \<longrightarrow> step_size = dx_new / (x ! 1 - x ! 0))
   \<and> (length x = length y \<and> 2 \<le> length x \<and> 0 < x ! 1 - x ! 0 \<and> x ! 1 - x ! 0 \<le> dx_new
        \<and> method \<in> set [''sum'', ''mean'', ''avg'', ''average'', ''arithmetic mean'']
      \<longrightarrow> (\<exists>xb yb. rebin_data x y dx_new method = Inr (xb, yb, dx_new / (x ! 1 - x ! 0))))"
proof (intro conjI impI)
  assume "rebin_data x y dx_new method = Inr (xbin, ybin, step_size)"
  then show "step_size = dx_new / (x ! 1 - x ! 0)"
    unfolding rebin_data_def
    by (auto simp: Let_def getitem_def split: sum.splits if_splits)
next
  assume a: "length x = length y \<and> 2 \<le> length x \<and> 0 < x ! 1 - x ! 0 \<and> x ! 1 - x ! 0 \<le> dx_new
        \<and> method \<in> set [''sum'', ''mean'', ''avg'', ''average'', ''arithmetic mean'']"
  then have u: "length x = length y" "2 \<le> length x" "0 < x ! 1 - x ! 0" "x ! 1 - x ! 0 \<le> dx_new"
    by simp_all
  from a have "method = ''sum'' \<or> method \<in> set [''mean'', ''avg'', ''average'', ''arithmetic mean'']"
    by auto
  then show "\<exists>xb yb. rebin_data x y dx_new method = Inr (xb, yb, dx_new / (x ! 1 - x ! 0))"
    by (auto simp add: rebin_data_unfold[OF u] simp del: set_simps)
qed

theorem rebin_data_step_size_witness:
  "rebin_data [0, 1, 2, 3] [1, 1, 1, 1] 2 ''mean'' = Inr ([1, 3], [1, 1], 2)
   \<and> (2::real) = 2 / ([0, 1, 2, 3] ! 1 - [0, 1, 2, 3] ! 0)
   \<and> (\<exists>xb yb. rebin_data [0, 1, 2, 3] [1, 1, 1, 1] 2 ''mean'' = Inr (xb, yb, 2 / ([0, 1, 2, 3] ! 1 - [0, 1, 2, 3] ! 0)))"
proof -
  have r: "rebin_data [0, 1, 2, 3] [1, 1, 1, 1] 2 ''mean'' = Inr ([1, 3], [1, 1], 2)"
    by (simp add: rebin_data_def arange_def rebin_total_def getitem_def py_int_def
      slice_def slice_index_def Let_def eval_nat_numeral frac_def)
  from rebin_data_step_size[of "[0, 1, 2, 3]" "[1, 1, 1, 1]" 2 "''mean''" "[1, 3]" "[1, 1]" 2] r
  show ?thesis by simp
qed

text \<open>
  Claim C8, as stated, fails: \<^verbatim>\<open>'avg'\<close> is none of \<^verbatim>\<open>'sum'\<close>, \<^verbatim>\<open>'mean'\<close>, \<^verbatim>\<open>'average'\<close>,
  \<^verbatim>\<open>'arithmetic mean'\<close>, yet \<^verbatim>\<open>rebin_data\<close> accepts it and averages.
\<close>

theorem rebin_data_method_counterexample:
  "''avg'' \<notin> set [''sum'', ''mean'', ''average'', ''arithmetic mean'']
   \<and> rebin_data [0, 1, 2, 3] [1, 1, 1, 1] 2 ''avg'' = Inr ([1, 3], [1, 1], 2)"
  by (simp add: rebin_data_def arange_def rebin_total_def getitem_def py_int_def
      slice_def slice_index_def Let_def eval_nat_numeral frac_def)

text \<open>
  Claim C8, amended. On inputs that pass the earlier steps (equal lengths, at least
  two samples, \<^verbatim>\<open>0 < x[1] - x[0] <= dx_new\<close>), \<^verbatim>\<open>rebin_data\<close> returns a result for
  exactly the methods \<^verbatim>\<open>'sum'\<close>, \<^verbatim>\<open>'mean'\<close>, \<^verbatim>\<open>'avg'\<close>, \<^verbatim>\<open>'average'\<close>, \<^verbatim>\<open>'arithmetic mean'\<close>
  and raises UnrecognizedMethod for every other method string.
\<close>

theorem rebin_data_method:
  assumes "length x = length y" and "2 \<le> length x"
    and "0 < x ! 1 - x ! 0" and "x ! 1 - x ! 0 \<le> dx_new"
  shows "(method \<in> set [''sum'', ''mean'', ''avg'', ''average'', ''arithmetic mean'']
            \<longrightarrow> (\<exists>r. rebin_data x y dx_new method = Inr r))
       \<and> (method \<notin> set [''sum'', ''mean'', ''avg'', ''average'', ''arithmetic mean'']
            \<longrightarrow> rebin_data x y dx_new method = Inl UnrecognizedMethod)"
  by (auto simp add: rebin_data_unfold[OF assms])

theorem rebin_data_method_witness:
  "length [0, 1, 2, 3 :: real] = length [1, 1, 1, 1 :: real] \<and> 2 \<le> length [0, 1, 2, 3 :: real]
   \<and> (0::real) < [0, 1, 2, 3] ! 1 - [0, 1, 2, 3] ! 0 \<and> [0, 1, 2, 3] ! 1 - [0, 1, 2, 3] ! 0 \<le> (2::real)
   \<and> ''median'' \<notin> set [''sum'', ''mean'', ''avg'', ''average'', ''arithmetic mean'']
   \<and> rebin_data [0, 1, 2, 3] [1, 1, 1, 1] 2 ''median'' = Inl UnrecognizedMethod
   \<and> (\<exists>r. rebin_data [0, 1, 2, 3] [1, 1, 1, 1] 2 ''average'' = Inr r)"
  using rebin_data_method[of "[0, 1, 2, 3]" "[1, 1, 1, 1]" 2 "''median''"]
    rebin_data_method[of "[0, 1, 2, 3]" "[1, 1, 1, 1]" 2 "''average''"]
  by simp

section \<open>Properties of time_intervals_from_gtis\<close>

lemma start_times_loop_eq:
  "0 < c \<Longrightarrow>
   start_times_loop acc gtis c = Inr (acc @ concat (map (\<lambda>g. gti_start_times g c) gtis))"
  by (induction gtis arbitrary: acc) (simp_all add: arange_def gti_start_times_def Let_def)

lemma gti_start_times_empty_iff:
  assumes "0 < c"
  shows "gti_start_times g c = [] \<longleftrightarrow> snd g - fst g \<le> c"
proof -
  have "nat \<lceil>(snd g - c - fst g) / c\<rceil> = 0 \<longleftrightarrow> snd g - c - fst g \<le> 0"
    using assms by (simp add: ceiling_le_iff divide_le_0_iff)
  then show ?thesis using assms by (auto simp: gti_start_times_def)
qed

lemma time_intervals_from_gtis_eq:
  assumes "0 < c"
  shows "time_intervals_from_gtis gtis c =
     (if \<forall>g\<in>set gtis. snd g - fst g \<le> c then Inl AssertionError
      else Inr (concat (map (\<lambda>g. gti_start_times g c) gtis),
                map (\<lambda>t. t + c) (concat (map (\<lambda>g. gti_start_times g c) gtis))))"
proof -
  have "concat (map (\<lambda>g. gti_start_times g c) gtis) = [] \<longleftrightarrow> (\<forall>g\<in>set gtis. snd g - fst g \<le> c)"
    using assms by (simp add: gti_start_times_empty_iff)
  then show ?thesis
    using assms by (simp add: time_intervals_from_gtis_def start_times_loop_eq)
qed

text \<open>
  Claim C2 on the code: a GTI exactly as long as \<^verbatim>\<open>chunk_length\<close> passes the length
  test but \<^verbatim>\<open>np.arange(g[0], g[1] - chunk_length, chunk_length)\<close> is then empty, so
  the assertion fails although a GTI equal to \<^verbatim>\<open>chunk_length\<close> exists.
\<close>

theorem time_intervals_equal_gti_fails:
  "snd (0, 5 :: real) - fst (0 :: real, 5 :: real) \<ge> 5
   \<and> time_intervals_from_gtis [(0, 5)] 5 = Inl AssertionError"
  by (simp add: time_intervals_from_gtis_def arange_def)

lemma time_intervals_two_chunks_one_start:
  "time_intervals_from_gtis [(0, 10)] 5 = Inr ([0], [5])"
  by (simp add: time_intervals_from_gtis_def arange_def)

section \<open>Properties of interpret_times\<close>

text \<open>
  Claim C6. For a calendar time (\<^verbatim>\<open>Time\<close>) whose MJD values all exceed 10000 and the
  default epoch 0, \<^verbatim>\<open>interpret_times\<close> takes the epoch from the first MJD value (the
  value itself for a scalar) and returns \<^verbatim>\<open>((mjd - epoch) * 86400, epoch)\<close>. The
  witness is MJD 57483, which yields \<^verbatim>\<open>(0, 57483)\<close>.
\<close>

theorem interpret_times_calendar:
  "(10000 < m \<longrightarrow> interpret_times (Time (ScalarV m)) 0 = Inr (ScalarV ((m - m) * 86400), m))
   \<and> (ms \<noteq> [] \<and> (\<forall>m\<in>set ms. 10000 < m) \<longrightarrow>
        interpret_times (Time (ArrayV ms)) 0
          = Inr (ArrayV (map (\<lambda>m. (m - ms ! 0) * 86400) ms), ms ! 0))"
  by (cases ms) (simp_all add: getitem_def)

theorem interpret_times_calendar_witness:
  "(10000 :: real) < 57483
   \<and> interpret_times (Time (ScalarV 57483)) 0 = Inr (ScalarV 0, 57483)
   \<and> [57483, 57484 :: real] \<noteq> [] \<and> list_all (\<lambda>m. 10000 < m) [57483, 57484 :: real]
   \<and> interpret_times (Time (ArrayV [57483, 57484])) 0 = Inr (ArrayV [0, 86400], 57483)"
  using interpret_times_calendar[of 57483 "[57483, 57484]"] by simp

section \<open>Properties of shift and change_mjdref\<close>

lemma getattr_setattr:
  "getattr (setattr self k v) a = (if a = k then Inr v else getattr self a)"
  by (simp add: getattr_def setattr_def update_conv')

lemma hasattr_iff: "hasattr self a \<longleftrightarrow> (\<exists>v. getattr self a = Inr v)"
  by (cases "getattr self a") (simp_all add: hasattr_def)

text \<open>
  Claim C9. A time series whose \<^verbatim>\<open>gti\<close> attribute holds \<^verbatim>\<open>None\<close> (and that has a
  \<^verbatim>\<open>time\<close> attribute, as every constructed one has) makes \<^verbatim>\<open>shift\<close> raise TypeError
  for every \<^verbatim>\<open>time_shift\<close>, and with it \<^verbatim>\<open>change_mjdref\<close> for a float \<^verbatim>\<open>mjdref\<close>.
\<close>

theorem shift_gti_none:
  assumes gti: "getattr ts ''gti'' = Inr PyNone" and time: "hasattr ts ''time''"
  shows "shift ts time_shift = Inl TypeError
       \<and> (getattr ts ''mjdref'' = Inr (PyNum mjdref) \<longrightarrow> change_mjdref ts new_mjdref = Inl TypeError)"
proof -
  from time obtain t where t: "getattr ts ''time'' = Inr t" by (auto simp: hasattr_iff)
  have g1: "getattr (setattr ts ''time'' t') ''gti'' = Inr PyNone" for t'
    by (simp add: getattr_setattr gti)
  have sh: "shift ts d = Inl TypeError" for d
    by (cases t) (simp_all add: shift_def t g1 hasattr_iff Let_def)
  then show ?thesis by (simp add: change_mjdref_def)
qed

lemma ts_no_gti_init:
  "StingrayTimeseries (Some [0, 1, 2]) [] 0 [] None PyNone PyNone PyNone [] = Inr ts_no_gti"
  by (simp add: StingrayTimeseries_def ts_no_gti_def setattr_def Let_def)

theorem shift_gti_none_witness:
  "StingrayTimeseries (Some [0, 1, 2]) [] 0 [] None PyNone PyNone PyNone [] = Inr ts_no_gti
   \<and> getattr ts_no_gti ''gti'' = Inr PyNone \<and> hasattr ts_no_gti ''time''
   \<and> shift ts_no_gti 10 = Inl TypeError
   \<and> getattr ts_no_gti ''mjdref'' = Inr (PyNum 0)
   \<and> change_mjdref ts_no_gti 5 = Inl TypeError"
proof -
  have a: "getattr ts_no_gti ''gti'' = Inr PyNone" by (simp add: getattr_def ts_no_gti_def)
  have b: "hasattr ts_no_gti ''time''" by (simp add: hasattr_def getattr_def ts_no_gti_def)
  have c: "getattr ts_no_gti ''mjdref'' = Inr (PyNum 0)" by (simp add: getattr_def ts_no_gti_def)
  from shift_gti_none[OF a b, of 10 0 5] a b c ts_no_gti_init show ?thesis by simp
qed

text \<open>
  Claim C5 on the code: for \<^verbatim>\<open>StingrayTimeseries(time=[0, 1, 2])\<close>, built without a
  GTI list, \<^verbatim>\<open>shift(10)\<close> raises TypeError instead of returning the shifted copy.
\<close>

theorem shift_default_gti_fails:
  "StingrayTimeseries (Some [0, 1, 2]) [] 0 [] None PyNone PyNone PyNone [] = Inr ts_no_gti
   \<and> shift ts_no_gti 10 = Inl TypeError"
  by (simp add: ts_no_gti_init) (simp add: shift_def ts_no_gti_def getattr_def setattr_def hasattr_def Let_def)

lemma shift_with_gti:
  assumes time: "getattr ts ''time'' = Inr (NdArray t)" and gti: "getattr ts ''gti'' = Inr (NdArray2 g)"
  shows "shift ts d =
     Inr (setattr (setattr ts ''time'' (NdArray (map (\<lambda>x. x + d) t)))
            ''gti'' (NdArray2 (map (\<lambda>r. (fst r + d, snd r + d)) g)))"
  by (simp add: shift_def time gti getattr_setattr hasattr_iff Let_def)

lemma shift_there_and_back:
  assumes time: "getattr ts ''time'' = Inr (NdArray t)" and gti: "getattr ts ''gti'' = Inr (NdArray2 g)"
  shows "\<exists>ts1 ts2. shift ts d = Inr ts1 \<and> shift ts1 (- d) = Inr ts2
     \<and> getattr ts1 ''time'' = Inr (NdArray (map (\<lambda>x. x + d) t))
     \<and> getattr ts1 ''gti'' = Inr (NdArray2 (map (\<lambda>r. (fst r + d, snd r + d)) g))
     \<and> (\<forall>a. a \<noteq> ''time'' \<and> a \<noteq> ''gti'' \<longrightarrow> getattr ts1 a = getattr ts a)
     \<and> (\<forall>a. getattr ts2 a = getattr ts a)"
proof -
  let ?ts1 = "setattr (setattr ts ''time'' (NdArray (map (\<lambda>x. x + d) t)))
            ''gti'' (NdArray2 (map (\<lambda>r. (fst r + d, snd r + d)) g))"
  have s1: "shift ts d = Inr ?ts1" by (rule shift_with_gti[OF time gti])
  have t1: "getattr ?ts1 ''time'' = Inr (NdArray (map (\<lambda>x. x + d) t))"
    by (simp add: getattr_setattr)
  have g1: "getattr ?ts1 ''gti'' = Inr (NdArray2 (map (\<lambda>r. (fst r + d, snd r + d)) g))"
    by (simp add: getattr_setattr)
  note s2 = shift_with_gti[OF t1 g1, of "- d"]
  have undo: "map (\<lambda>x. x + - d) (map (\<lambda>x. x + d) t) = t"
    "map (\<lambda>r. (fst r + - d, snd r + - d)) (map (\<lambda>r. (fst r + d, snd r + d)) g) = g"
    by (simp_all add: comp_def)
  show ?thesis
  proof (intro exI conjI allI impI)
    show "shift ts d = Inr ?ts1" by (rule s1)
    show "shift ?ts1 (- d) = Inr (setattr (setattr ?ts1 ''time'' (NdArray t)) ''gti'' (NdArray2 g))"
      using s2 by (simp only: undo)
    show "getattr ?ts1 ''time'' = Inr (NdArray (map (\<lambda>x. x + d) t))" by (rule t1)
    show "getattr ?ts1 ''gti'' = Inr (NdArray2 (map (\<lambda>r. (fst r + d, snd r + d)) g))" by (rule g1)
    show "getattr ?ts1 a = getattr ts a" if "a \<noteq> ''time'' \<and> a \<noteq> ''gti''" for a
      using that by (simp add: getattr_setattr)
    show "getattr (setattr (setattr ?ts1 ''time'' (NdArray t)) ''gti'' (NdArray2 g)) a = getattr ts a" for a
      using time gti by (simp add: getattr_setattr)
  qed
qed

section \<open>Properties of apply_mask\<close>

lemma set_dir_attrs: "set (dir_attrs self) = insert ''main_array_attr'' (fst ` set self)"
  by (auto simp: dir_attrs_def)

lemma getattr_map_of: "map_of self a = Some v \<Longrightarrow> getattr self a = Inr v"
  by (simp add: getattr_def)

lemma getattr_dir: "a \<in> set (dir_attrs self) \<Longrightarrow> hasattr self a"
  by (auto simp: set_dir_attrs hasattr_def getattr_def map_of_eq_None_iff split: option.splits)

lemma copy_meta_attrs_getattr:
  "getattr (copy_meta_attrs self attrs new_ts) a =
     (if a \<in> set attrs \<and> hasattr self a then getattr self a else getattr new_ts a)"
proof (induction attrs arbitrary: new_ts)
  case Nil
  then show ?case by simp
next
  case (Cons x xs)
  show ?case
    by (cases "getattr self x") (auto simp: Cons.IH getattr_setattr hasattr_iff)
qed

lemma mask_attrs_loop_new:
  assumes "\<forall>a\<in>set attrs. \<exists>xs. getattr self a = Inr (NdArray xs) \<and> length xs = length msk"
  shows "\<exists>r. mask_attrs_loop False self msk attrs new_ts = Inr r
     \<and> (\<forall>a. getattr r a =
            (if a \<in> set attrs
             then (case getattr self a of Inl e \<Rightarrow> Inl e | Inr v \<Rightarrow> getitem_mask v msk)
             else getattr new_ts a))"
  using assms
proof (induction attrs arbitrary: new_ts)
  case Nil
  then show ?case by simp
next
  case (Cons x xs)
  from Cons.prems obtain ys where x: "getattr self x = Inr (NdArray ys)" "length ys = length msk"
    by auto
  from Cons.prems have "\<forall>a\<in>set xs. \<exists>xs. getattr self a = Inr (NdArray xs) \<and> length xs = length msk"
    by simp
  from Cons.IH[OF this, of "setattr new_ts x (NdArray (select_mask ys msk))"]
  obtain r where r: "mask_attrs_loop False self msk xs (setattr new_ts x (NdArray (select_mask ys msk))) = Inr r"
    and rr: "\<And>a. getattr r a =
            (if a \<in> set xs
             then (case getattr self a of Inl e \<Rightarrow> Inl e | Inr v \<Rightarrow> getitem_mask v msk)
             else getattr (setattr new_ts x (NdArray (select_mask ys msk))) a)"
    by blast
  show ?case
    using x r by (auto simp: rr getattr_setattr)
qed

lemma no_list_attrD:
  assumes "no_list_attr self n" and "getattr self a = Inr (PyList xs)"
  shows "length xs \<noteq> n"
proof -
  from assms(2) have "map_of self a = Some (PyList xs)"
    by (auto simp: getattr_def split: option.splits if_splits)
  then have "(a, PyList xs) \<in> set self" by (rule map_of_SomeD)
  with assms(1) show ?thesis by (auto simp: no_list_attr_def list_all_iff)
qed

lemma array_attrs_time:
  assumes main: "getattr self ''main_array_attr'' = Inr (PyStr ''time'')"
    and time: "getattr self ''time'' = Inr (NdArray t)"
  shows "array_attrs self = Inr (filter (is_array_attr self (NdArray t)) (dir_attrs self))"
  by (simp add: array_attrs_def main time)

lemma is_array_attr_ndarray:
  assumes nolist: "no_list_attr self (length t)"
    and a: "is_array_attr self (NdArray t) a"
  shows "\<exists>xs. getattr self a = Inr (NdArray xs) \<and> length xs = length t"
proof -
  from a obtain v where v: "getattr self a = Inr v" "is_iterable v" "np_shape v = [length t]"
    by (auto simp: is_array_attr_def split: sum.splits)
  show ?thesis
  proof (cases v)
    case (PyList xs)
    with v nolist no_list_attrD[of self "length t" a xs] show ?thesis by simp
  qed (use v in simp_all)
qed

lemma ndarray_is_array_attr:
  assumes "getattr self a = Inr (NdArray xs)" and "length xs = length t"
  shows "a \<in> set (filter (is_array_attr self (NdArray t)) (dir_attrs self))"
proof -
  from assms(1) have "a \<in> set (dir_attrs self)"
    by (auto simp: set_dir_attrs getattr_def split: option.splits if_splits dest: map_of_SomeD
        intro: rev_image_eqI)
  with assms show ?thesis by (simp add: is_array_attr_def)
qed

lemma apply_mask_new_object:
  assumes main: "getattr self ''main_array_attr'' = Inr (PyStr ''time'')"
    and time: "getattr self ''time'' = Inr (NdArray t)"
    and nolist: "no_list_attr self (length t)"
    and len: "length msk = length t"
  shows "\<exists>new_ts metas. apply_mask self msk False None = Inr new_ts \<and> meta_attrs self = Inr metas
     \<and> (\<forall>a xs. getattr self a = Inr (NdArray xs) \<and> length xs = length t
            \<longrightarrow> getattr new_ts a = Inr (NdArray (select_mask xs msk)))
     \<and> (\<forall>a\<in>set metas. getattr new_ts a = getattr self a)"
proof -
  define arrs where "arrs = filter (is_array_attr self (NdArray t)) (dir_attrs self)"
  define metas where "metas = filter (\<lambda>attr. attr \<notin> set arrs \<and> \<not> startswith attr ''_'') (dir_attrs self)"
  have aa: "array_attrs self = Inr arrs"
    unfolding arrs_def by (rule array_attrs_time[OF main time])
  have ma: "meta_attrs self = Inr metas"
    by (simp add: meta_attrs_def aa metas_def)
  have tin: "''time'' \<in> set arrs"
    unfolding arrs_def by (rule ndarray_is_array_attr[OF time]) simp
  have all_nd: "\<forall>a\<in>set arrs. \<exists>xs. getattr self a = Inr (NdArray xs) \<and> length xs = length msk"
    using is_array_attr_ndarray[OF nolist] by (auto simp: arrs_def len)
  from mask_attrs_loop_new[OF all_nd, of "copy_meta_attrs self metas new_timeseries"]
  obtain r where r: "mask_attrs_loop False self msk arrs (copy_meta_attrs self metas new_timeseries) = Inr r"
    and rr: "\<And>a. getattr r a =
            (if a \<in> set arrs
             then (case getattr self a of Inl e \<Rightarrow> Inl e | Inr v \<Rightarrow> getitem_mask v msk)
             else getattr (copy_meta_attrs self metas new_timeseries) a)"
    by blast
  have am: "apply_mask self msk False None = Inr r"
    using tin by (simp add: apply_mask_def aa ma r Let_def)
  have p1: "getattr r a = Inr (NdArray (select_mask xs msk))"
    if "getattr self a = Inr (NdArray xs) \<and> length xs = length t" for a xs
  proof -
    from that have "a \<in> set arrs"
      unfolding arrs_def using ndarray_is_array_attr[of self a xs t] by simp
    with that show ?thesis by (simp add: rr len)
  qed
  have p2: "getattr r a = getattr self a" if "a \<in> set metas" for a
  proof -
    from that have "a \<notin> set arrs" "a \<in> set (dir_attrs self)" by (simp_all add: metas_def)
    with that getattr_dir[of a self] show ?thesis
      by (simp add: rr copy_meta_attrs_getattr)
  qed
  from am ma p1 p2 show ?thesis by blast
qed

lemma select_mask_all_true: "select_mask xs (replicate (length xs) True) = xs"
proof -
  have "filter snd (zip xs (replicate (length xs) True)) = zip xs (replicate (length xs) True)"
    by (rule filter_True) (auto simp: set_zip)
  then show ?thesis by (simp add: select_mask_def map_fst_zip)
qed

text \<open>
  When every array attribute is a NumPy array, the all-true mask gives back, in both
  modes, an object equal to the original in every array attribute and every meta
  attribute.
\<close>

lemma eliminate_unfiltered_subset:
  "set all_attrs \<subseteq> set filtered_attrs \<Longrightarrow>
   eliminate_unfiltered all_attrs filtered_attrs new_ts = new_ts"
  by (induction all_attrs arbitrary: new_ts) simp_all

lemma mask_attrs_loop_inplace_all_true:
  assumes "\<forall>a\<in>set attrs. \<exists>xs. getattr new_ts a = Inr (NdArray xs) \<and> length xs = n"
  shows "\<exists>r. mask_attrs_loop True self (replicate n True) attrs new_ts = Inr r
     \<and> (\<forall>a. getattr r a = getattr new_ts a)"
  using assms
proof (induction attrs arbitrary: new_ts)
  case Nil
  then show ?case by simp
next
  case (Cons x xs)
  from Cons.prems obtain ys where x: "getattr new_ts x = Inr (NdArray ys)" "length ys = n"
    by auto
  let ?o = "setattr new_ts x (NdArray ys)"
  have same: "getattr ?o a = getattr new_ts a" for a
    using x by (simp add: getattr_setattr)
  from Cons.prems have "\<forall>a\<in>set xs. \<exists>zs. getattr ?o a = Inr (NdArray zs) \<and> length zs = n"
    by (simp add: same)
  from Cons.IH[OF this] obtain r where
    "mask_attrs_loop True self (replicate n True) xs ?o = Inr r" "\<And>a. getattr r a = getattr ?o a"
    by blast
  then show ?case
    using x select_mask_all_true[of ys] by (auto simp: same)
qed

lemma apply_mask_all_true:
  assumes main: "getattr self ''main_array_attr'' = Inr (PyStr ''time'')"
    and time: "getattr self ''time'' = Inr (NdArray t)"
    and nolist: "no_list_attr self (length t)"
  shows "\<exists>new_ts arrs metas.
       apply_mask self (replicate (length t) True) inplace None = Inr new_ts
     \<and> array_attrs self = Inr arrs \<and> meta_attrs self = Inr metas
     \<and> (\<forall>a\<in>set arrs \<union> set metas. getattr new_ts a = getattr self a)"
proof -
  define arrs where "arrs = filter (is_array_attr self (NdArray t)) (dir_attrs self)"
  have aa: "array_attrs self = Inr arrs"
    unfolding arrs_def by (rule array_attrs_time[OF main time])
  have tin: "''time'' \<in> set arrs"
    unfolding arrs_def by (rule ndarray_is_array_attr[OF time]) simp
  have all_nd: "\<forall>a\<in>set arrs. \<exists>xs. getattr self a = Inr (NdArray xs) \<and> length xs = length t"
    using is_array_attr_ndarray[OF nolist] by (auto simp: arrs_def)
  show ?thesis
  proof (cases inplace)
    case True
    from mask_attrs_loop_inplace_all_true[OF all_nd, of self]
    obtain r where r: "mask_attrs_loop True self (replicate (length t) True) arrs self = Inr r"
      and rr: "\<And>a. getattr r a = getattr self a" by blast
    have "apply_mask self (replicate (length t) True) True None = Inr r"
      using tin by (simp add: apply_mask_def aa eliminate_unfiltered_subset r Let_def)
    with True aa rr show ?thesis by (simp add: meta_attrs_def)
  next
    case False
    from apply_mask_new_object[OF main time nolist, of "replicate (length t) True"]
    obtain new_ts metas where am: "apply_mask self (replicate (length t) True) False None = Inr new_ts"
      and ma: "meta_attrs self = Inr metas"
      and p1: "\<And>a xs. getattr self a = Inr (NdArray xs) \<and> length xs = length t
            \<Longrightarrow> getattr new_ts a = Inr (NdArray (select_mask xs (replicate (length t) True)))"
      and p2: "\<And>a. a \<in> set metas \<Longrightarrow> getattr new_ts a = getattr self a"
      by auto
    have "getattr new_ts a = getattr self a" if "a \<in> set arrs" for a
    proof -
      from all_nd that obtain xs where xs: "getattr self a = Inr (NdArray xs)" "length xs = length t"
        by blast
      with p1[of a xs] select_mask_all_true[of xs] show ?thesis by simp
    qed
    with False am aa ma p2 show ?thesis by auto
  qed
qed

lemma ts_bubu_init:
  "(case StingrayTimeseries (Some [0, 1, 2]) [(''counts'', [2, 3, 4])] 0 [] None PyNone PyNone PyNone
           [(''mission'', PyStr ''nustar'')] of
      Inl e \<Rightarrow> Inl e
    | Inr ts \<Rightarrow> Inr (setattr ts ''bubuattr'' (PyList [222, 111, 333]))) = Inr ts_bubu"
  by (simp add: StingrayTimeseries_def ts_bubu_def setattr_def getattr_def Let_def)

text \<open>
  Claim C4 on the code: the source indexes the attribute before converting it,
  \<^verbatim>\<open>np.asarray(getattr(self, attr)[mask])\<close>, so an array attribute stored as a plain
  list (the \<^verbatim>\<open>bubuattr\<close> of the method's own docstring) cannot be indexed by the
  mask: with the all-true mask \<^verbatim>\<open>apply_mask\<close> raises TypeError in both modes instead
  of returning an equal object, and so it does on the docstring's mask.
\<close>

theorem apply_mask_list_attr_fails:
  "array_attrs ts_bubu = Inr [''bubuattr'', ''counts'', ''time'']
   \<and> apply_mask ts_bubu [True, True, True] False None = Inl TypeError
   \<and> apply_mask ts_bubu [True, True, True] True None = Inl TypeError
   \<and> apply_mask ts_bubu [True, True, False] False None = Inl TypeError"
proof -
  have aa: "array_attrs ts_bubu = Inr [''bubuattr'', ''counts'', ''time'']"
    by (simp add: array_attrs_def ts_bubu_def getattr_def dir_attrs_def is_array_attr_def)
  have b: "getattr ts_bubu ''bubuattr'' = Inr (PyList [222, 111, 333])"
    by (simp add: ts_bubu_def getattr_def)
  have ma: "\<exists>metas. meta_attrs ts_bubu = Inr metas"
    by (simp add: meta_attrs_def aa)
  then obtain metas where ma: "meta_attrs ts_bubu = Inr metas" ..
  show ?thesis
    by (simp add: aa apply_mask_def ma b Let_def)
qed

section \<open>Properties of split_by_gti\<close>









section \<open>Properties of the complex columns of write and read\<close>

lemma write_two_complex:
  "write_columns table_two_complex =
     Inr [(''time'', RealCol [0, 1]),
          (''a.real'', RealCol [1, 3]), (''a.imag'', RealCol [2, 4]),
          (''b.real'', RealCol [5, 7]), (''b.imag'', RealCol [6, 8])]"
  by (simp add: write_columns_def table_two_complex_def colnames_def get_column_def
      set_column_def remove_column_def getitem_def)

lemma read_two_complex:
  "read_columns [(''time'', RealCol [0, 1]),
                 (''a.real'', RealCol [1, 3]), (''a.imag'', RealCol [2, 4]),
                 (''b.real'', RealCol [5, 7]), (''b.imag'', RealCol [6, 8])] =
     Inr [(''time'', RealCol [0, 1]),
          (''a'', ComplexCol [Complex 1 2, Complex 3 4]),
          (''b'', ComplexCol [Complex 0 11, Complex 0 15])]"
  by (simp add: read_columns_def colnames_def get_column_def set_column_def
      remove_column_def endswith_def Let_def complex_eq_iff)

lemma write_first_entry_real:
  "write_columns [(''time'', RealCol [0, 1]), (''a'', ComplexCol [Complex 1 0, Complex 2 3])] =
     Inr [(''time'', RealCol [0, 1]), (''a'', ComplexCol [Complex 1 0, Complex 2 3])]"
  by (simp add: write_columns_def colnames_def get_column_def getitem_def)

text \<open>
  Claim C1 on the code. With two complex columns the table written by \<^verbatim>\<open>write\<close> reads
  back with \<^verbatim>\<open>b = [11j, 15j]\<close> instead of \<^verbatim>\<open>[5+6j, 7+8j]\<close>: at \<^verbatim>\<open>b.real\<close> the walrus
  assignment of \<^verbatim>\<open>is_imag\<close> is skipped and the variable still holds \<^verbatim>\<open>True\<close> from
  \<^verbatim>\<open>a.imag\<close>, so the real part is multiplied by \<^verbatim>\<open>1j\<close>. And a complex column whose
  first entry has no imaginary part, \<^verbatim>\<open>[1+0j, 2+3j]\<close>, is not split at all, since
  \<^verbatim>\<open>np.iscomplex\<close> tests the value of that entry.
\<close>

theorem complex_roundtrip_fails:
  "(\<exists>written back.
       write_columns table_two_complex = Inr written
     \<and> colnames written = [''time'', ''a.real'', ''a.imag'', ''b.real'', ''b.imag'']
     \<and> read_columns written = Inr back
     \<and> get_column back ''a'' = get_column table_two_complex ''a''
     \<and> get_column back ''b'' = Inr (ComplexCol [Complex 0 11, Complex 0 15])
     \<and> get_column back ''b'' \<noteq> get_column table_two_complex ''b'')
   \<and> write_columns [(''time'', RealCol [0, 1]), (''a'', ComplexCol [Complex 1 0, Complex 2 3])]
        = Inr [(''time'', RealCol [0, 1]), (''a'', ComplexCol [Complex 1 0, Complex 2 3])]"
proof -
  have "get_column table_two_complex ''b'' = Inr (ComplexCol [Complex 5 6, Complex 7 8])"
    by (simp add: get_column_def table_two_complex_def)
  moreover have "get_column table_two_complex ''a'' = Inr (ComplexCol [Complex 1 2, Complex 3 4])"
    by (simp add: get_column_def table_two_complex_def)
  ultimately show ?thesis
    by (simp add: write_two_complex read_two_complex write_first_entry_real colnames_def
        get_column_def)
qed


end
